theory Spec2Isabelle
  imports Main "HOL-Library.Sublist"
begin

section \<open>Warehouse free-space registry\<close>

text \<open>
  A shallow embedding of the request handlers of \<^verbatim>\<open>main.py\<close>: \<^verbatim>\<open>get_locations\<close>,
  \<^verbatim>\<open>reserve\<close>, \<^verbatim>\<open>occupy\<close>, \<^verbatim>\<open>free\<close> and \<^verbatim>\<open>move\<close>. The handlers of
  \<^verbatim>\<open>Main.py\<close> are the same statements written on fewer lines, so one model covers
  both files.
\<close>

subsection \<open>Data model\<close>

text \<open>
  A location is the row dictionary that \<^verbatim>\<open>load_locations\<close> builds from one CSV record:
  the positional coordinates are \<^verbatim>\<open>int\<close> or \<^verbatim>\<open>None\<close>, the four physical bounds are
  Python integers, everything else (the status included) is the text read from the file.
  The key \<^verbatim>\<open>"id"\<close> is the field \<open>loc_id\<close>.
\<close>

record location =
  loc_id :: string
  area_id :: string
  area_type :: string
  aisle :: "int option"
  bay :: "int option"
  level :: "int option"
  position :: "int option"
  length_mm :: int
  width_mm :: int
  height_mm :: int
  max_weight_kg :: int
  status :: string
  group_id :: string

text \<open>The pydantic model \<^verbatim>\<open>Reservation\<close>; \<^verbatim>\<open>res.dict()\<close> keeps all six fields.\<close>

record reservation =
  res_id :: string
  location_ids :: "string list"
  ref :: "string option"
  from_ts :: "string option"
  until_ts :: "string option"
  res_status :: string

text \<open>
  The two module-level dictionaries. \<^verbatim>\<open>locations\<close> is iterated by \<^verbatim>\<open>get_locations\<close>,
  so its insertion order matters: it is an association list in insertion order, read with
  \<open>map_of\<close>. \<^verbatim>\<open>reservations\<close> is only written and read by key: a map.
\<close>

type_synonym catalogue = "(string \<times> location) list"

record state =
  locations :: catalogue
  reservations :: "string \<rightharpoonup> reservation"

text \<open>\<^verbatim>\<open>HTTPException(status_code, detail)\<close>: 404 is NotFound, 409 is Conflict.\<close>

datatype error = HTTPException nat string

fun status_code :: "error \<Rightarrow> nat" where
  "status_code (HTTPException c d) = c"

text \<open>
  \<^verbatim>\<open>locations[lid]["status"] = s\<close>: the row stored under \<open>lid\<close> is mutated in place, the
  key and its place in the dictionary stay. Every such assignment in the source follows an
  \<^verbatim>\<open>in locations\<close> test of the same key, so the \<^verbatim>\<open>KeyError\<close> of a missing key is never
  raised; here a missing key leaves the catalogue as it is.
\<close>

definition set_status :: "string \<Rightarrow> string \<Rightarrow> catalogue \<Rightarrow> catalogue" where
  "set_status lid s cat =
     map (\<lambda>(k, loc). if k = lid then (k, loc\<lparr>status := s\<rparr>) else (k, loc)) cat"

subsection \<open>occupy, free, move\<close>

text \<open>
  Each handler takes the state and returns what the request gets (\<open>Inl\<close> the exception
  raised, \<open>Inr\<close> the payload of the \<^verbatim>\<open>{"ok": True, ...}\<close> answer) together with the state
  the process is left in. An exception raised before any assignment leaves the state as
  it was.
\<close>

definition occupy :: "string \<Rightarrow> string option \<Rightarrow> state \<Rightarrow> (error + location) \<times> state" where
  "occupy location_id pallet_ref st =
     (case map_of (locations st) location_id of
        None \<Rightarrow> (Inl (HTTPException 404 ''Location not found''), st)
      | Some loc \<Rightarrow>
          if status loc \<notin> {''FREE'', ''RESERVED''}
          then (Inl (HTTPException 409 ''Location not FREE/RESERVED''), st)
          else (Inr (loc\<lparr>status := ''OCCUPIED''\<rparr>),
                st\<lparr>locations := set_status location_id ''OCCUPIED'' (locations st)\<rparr>))"

definition free :: "string \<Rightarrow> state \<Rightarrow> (error + location) \<times> state" where
  "free location_id st =
     (case map_of (locations st) location_id of
        None \<Rightarrow> (Inl (HTTPException 404 ''Location not found''), st)
      | Some loc \<Rightarrow>
          (Inr (loc\<lparr>status := ''FREE''\<rparr>),
           st\<lparr>locations := set_status location_id ''FREE'' (locations st)\<rparr>))"

definition move :: "string \<Rightarrow> string \<Rightarrow> string option \<Rightarrow> state
    \<Rightarrow> (error + location \<times> location) \<times> state" where
  "move from_location_id to_location_id pallet_ref st =
     (case map_of (locations st) from_location_id of
        None \<Rightarrow> (Inl (HTTPException 404 ''Location not found''), st)
      | Some from_loc \<Rightarrow>
         (case map_of (locations st) to_location_id of
            None \<Rightarrow> (Inl (HTTPException 404 ''Location not found''), st)
          | Some to_loc \<Rightarrow>
              if status from_loc \<noteq> ''OCCUPIED''
              then (Inl (HTTPException 409 ''From location not OCCUPIED''), st)
              else if status to_loc \<notin> {''FREE'', ''RESERVED''}
              then (Inl (HTTPException 409 ''To location not FREE/RESERVED''), st)
              else (Inr (from_loc\<lparr>status := ''FREE''\<rparr>, to_loc\<lparr>status := ''OCCUPIED''\<rparr>),
                    st\<lparr>locations :=
                         set_status to_location_id ''OCCUPIED''
                           (set_status from_location_id ''FREE'' (locations st))\<rparr>)))"

subsection \<open>reserve\<close>

text \<open>
  The first loop of \<^verbatim>\<open>reserve\<close>: one pass over \<^verbatim>\<open>res.location_ids\<close>, and for each id
  the membership test and then the status test. It assigns nothing; \<open>Some e\<close> is the
  exception raised, \<open>None\<close> is the loop running to its end.
\<close>

fun reserve_check :: "catalogue \<Rightarrow> string list \<Rightarrow> error option" where
  "reserve_check cat [] = None"
| "reserve_check cat (lid # lids) =
     (case map_of cat lid of
        None \<Rightarrow> Some (HTTPException 404 (''Location '' @ lid @ '' not found''))
      | Some loc \<Rightarrow>
          if status loc \<noteq> ''FREE''
          then Some (HTTPException 409 (''Location '' @ lid @ '' not FREE''))
          else reserve_check cat lids)"

text \<open>The second loop: every listed location becomes RESERVED, in list order.\<close>

fun reserve_apply :: "string list \<Rightarrow> catalogue \<Rightarrow> catalogue" where
  "reserve_apply [] cat = cat"
| "reserve_apply (lid # lids) cat = reserve_apply lids (set_status lid ''RESERVED'' cat)"

definition reserve :: "reservation \<Rightarrow> state \<Rightarrow> (error + reservation) \<times> state" where
  "reserve res st =
     (case reserve_check (locations st) (location_ids res) of
        Some e \<Rightarrow> (Inl e, st)
      | None \<Rightarrow>
          (Inr res,
           st\<lparr>locations := reserve_apply (location_ids res) (locations st),
              reservations := (reservations st)(res_id res \<mapsto> res)\<rparr>))"

subsection \<open>get_locations\<close>

text \<open>
  The keyword arguments of \<^verbatim>\<open>get_locations\<close>. The request layer admits for
  \<^verbatim>\<open>status\<close> and \<^verbatim>\<open>area_type\<close> only the texts of their regular expressions; the other
  arguments, \<^verbatim>\<open>limit\<close> included, are unconstrained.
\<close>

record params =
  p_status :: "string option"
  p_area_type :: "string option"
  p_area_id :: "string option"
  p_min_l :: "int option"
  p_min_w :: "int option"
  p_min_h :: "int option"
  p_min_weight :: "int option"
  p_group_id :: "string option"
  p_limit :: int

text \<open>
  \<^verbatim>\<open>if x and loc[f] != x: continue\<close> and \<^verbatim>\<open>if m and loc[f] < m: continue\<close>. The
  first conjunct is Python truthiness: \<^verbatim>\<open>None\<close>, the empty string and 0 are false.
\<close>

definition str_rejects :: "string option \<Rightarrow> string \<Rightarrow> bool" where
  "str_rejects x v = (case x of None \<Rightarrow> False | Some s \<Rightarrow> s \<noteq> [] \<and> v \<noteq> s)"

definition min_rejects :: "int option \<Rightarrow> int \<Rightarrow> bool" where
  "min_rejects m v = (case m of None \<Rightarrow> False | Some n \<Rightarrow> n \<noteq> 0 \<and> v < n)"

text \<open>The eight \<^verbatim>\<open>continue\<close> tests of the loop body, in source order.\<close>

definition skipped :: "params \<Rightarrow> location \<Rightarrow> bool" where
  "skipped p loc \<longleftrightarrow>
     str_rejects (p_status p) (status loc) \<or>
     str_rejects (p_area_type p) (area_type loc) \<or>
     str_rejects (p_area_id p) (area_id loc) \<or>
     str_rejects (p_group_id p) (group_id loc) \<or>
     min_rejects (p_min_l p) (length_mm loc) \<or>
     min_rejects (p_min_w p) (width_mm loc) \<or>
     min_rejects (p_min_h p) (height_mm loc) \<or>
     min_rejects (p_min_weight p) (max_weight_kg loc)"

text \<open>
  The loop over \<^verbatim>\<open>locations.values()\<close> with the list \<^verbatim>\<open>results\<close> built so far: a
  location that passes is appended, and only then is the length compared with
  \<^verbatim>\<open>limit\<close>.
\<close>

fun scan :: "params \<Rightarrow> location list \<Rightarrow> location list \<Rightarrow> location list" where
  "scan p results [] = results"
| "scan p results (loc # rest) =
     (if skipped p loc then scan p results rest
      else if int (length (results @ [loc])) \<ge> p_limit p then results @ [loc]
      else scan p (results @ [loc]) rest)"

text \<open>The answer \<^verbatim>\<open>{"count": len(results), "items": results}\<close>; nothing is assigned.\<close>

definition get_locations :: "params \<Rightarrow> state \<Rightarrow> nat \<times> location list" where
  "get_locations p st =
     (let results = scan p [] (map snd (locations st)) in (length results, results))"

subsection \<open>Sequences of requests\<close>

datatype op =
    Query params
  | Reserve reservation
  | Occupy string "string option"
  | Free string
  | Move string string "string option"

fun step :: "op \<Rightarrow> state \<Rightarrow> state" where
  "step (Query p) st = st"
| "step (Reserve res) st = snd (reserve res st)"
| "step (Occupy lid pr) st = snd (occupy lid pr st)"
| "step (Free lid) st = snd (free lid st)"
| "step (Move a b pr) st = snd (move a b pr st)"

fun run :: "op list \<Rightarrow> state \<Rightarrow> state" where
  "run [] st = st"
| "run (x # xs) st = run xs (step x st)"

definition status_of :: "state \<Rightarrow> string \<Rightarrow> string option" where
  "status_of st lid = map_option status (map_of (locations st) lid)"

definition valid_status :: "string \<Rightarrow> bool" where
  "valid_status s \<longleftrightarrow> s \<in> {''FREE'', ''OCCUPIED'', ''RESERVED'', ''BLOCKED'', ''MAINT''}"

subsection \<open>A small catalogue\<close>

text \<open>
  A catalogue of four FLEX slots, as the loader would build it from four CSV rows, the
  default arguments of \<^verbatim>\<open>get_locations\<close> (every filter \<^verbatim>\<open>None\<close>, \<^verbatim>\<open>limit\<close> 100)
  and a reservation request with the default metadata.
\<close>

definition flex_slot :: "string \<Rightarrow> string \<Rightarrow> string \<Rightarrow> location" where
  "flex_slot i s g =
     \<lparr>loc_id = i, area_id = ''FLEX-02'', area_type = ''FLEX'',
      aisle = None, bay = None, level = None, position = None,
      length_mm = 1000, width_mm = 1000, height_mm = 2200, max_weight_kg = 2500,
      status = s, group_id = g\<rparr>"

definition demo :: state where
  "demo =
     \<lparr>locations =
        [(''L1'', flex_slot ''L1'' ''FREE'' []),
         (''L2'', flex_slot ''L2'' ''OCCUPIED'' []),
         (''L3'', flex_slot ''L3'' ''FREE'' ''G1''),
         (''L4'', flex_slot ''L4'' ''BLOCKED'' ''G1'')],
      reservations = Map.empty\<rparr>"

definition no_filters :: params where
  "no_filters =
     \<lparr>p_status = None, p_area_type = None, p_area_id = None,
      p_min_l = None, p_min_w = None, p_min_h = None, p_min_weight = None,
      p_group_id = None, p_limit = 100\<rparr>"

definition hold :: "string \<Rightarrow> string list \<Rightarrow> reservation" where
  "hold r ids =
     \<lparr>res_id = r, location_ids = ids, ref = None, from_ts = None, until_ts = None,
      res_status = ''ACTIVE''\<rparr>"

section \<open>Properties\<close>

subsection \<open>Assignments to one row\<close>

lemma map_of_set_status:
  "map_of (set_status lid s cat) k =
     (if k = lid then map_option (\<lambda>loc. loc\<lparr>status := s\<rparr>) (map_of cat k) else map_of cat k)"
  by (induction cat) (auto simp: set_status_def)

lemma keys_set_status: "map fst (set_status lid s cat) = map fst cat"
  by (induction cat) (auto simp: set_status_def)

lemma set_status_twice: "set_status lid s (set_status lid s cat) = set_status lid s cat"
  by (induction cat) (auto simp: set_status_def)

lemma status_of_set_status:
  "status_of (st\<lparr>locations := set_status lid s (locations st)\<rparr>) k =
     (if k = lid \<and> status_of st k \<noteq> None then Some s else status_of st k)"
  by (cases "map_of (locations st) k") (auto simp: status_of_def map_of_set_status)

subsection \<open>The two loops of reserve\<close>

lemma map_of_reserve_apply:
  "map_of (reserve_apply ids cat) k =
     (if k \<in> set ids then map_option (\<lambda>loc. loc\<lparr>status := ''RESERVED''\<rparr>) (map_of cat k)
      else map_of cat k)"
proof (induction ids arbitrary: cat)
  case Nil
  then show ?case by simp
next
  case (Cons lid ids)
  then show ?case
    by (cases "map_of cat k") (auto simp: map_of_set_status)
qed

lemma keys_reserve_apply: "map fst (reserve_apply ids cat) = map fst cat"
  by (induction ids arbitrary: cat) (auto simp: keys_set_status)

lemma reserve_check_None_iff:
  "reserve_check cat ids = None \<longleftrightarrow>
     (\<forall>lid\<in>set ids. \<exists>loc. map_of cat lid = Some loc \<and> status loc = ''FREE'')"
  by (induction ids) (auto split: option.splits)

lemma reserve_check_code:
  "reserve_check cat ids = Some e \<Longrightarrow> status_code e = 404 \<or> status_code e = 409"
  by (induction ids) (auto split: option.splits if_splits)

lemma reserve_check_append:
  "\<forall>x\<in>set pre. \<exists>loc. map_of cat x = Some loc \<and> status loc = ''FREE'' \<Longrightarrow>
   reserve_check cat (pre @ rest) = reserve_check cat rest"
  by (induction pre) auto

subsection \<open>The scan of get_locations\<close>

text \<open>
  The loop returns the first \<open>max 1 limit\<close> locations that no filter rejects: the
  comparison with \<^verbatim>\<open>limit\<close> comes after the append, so one location is always let in.
\<close>

lemma scan_eq:
  "scan p acc vals =
     acc @ take (nat (max 1 (p_limit p - int (length acc))))
             (filter (\<lambda>loc. \<not> skipped p loc) vals)"
proof (induction vals arbitrary: acc)
  case Nil
  then show ?case by simp
next
  case (Cons loc rest)
  show ?case
  proof (cases "skipped p loc")
    case True
    then show ?thesis using Cons.IH [of acc] by simp
  next
    case False
    show ?thesis
    proof (cases "int (length (acc @ [loc])) \<ge> p_limit p")
      case True
      then have "nat (max 1 (p_limit p - int (length acc))) = 1" by simp
      with True False show ?thesis by simp
    next
      case more: False
      then obtain m where m: "nat (max 1 (p_limit p - int (length acc))) = Suc m"
        and m': "nat (max 1 (p_limit p - int (length (acc @ [loc])))) = m"
        by (cases "nat (max 1 (p_limit p - int (length acc)))")
           (auto simp: max_def split: if_splits)
      from more False show ?thesis
        using Cons.IH [of "acc @ [loc]"] m m' by simp
    qed
  qed
qed

lemma get_locations_items:
  "snd (get_locations p st) =
     take (nat (max 1 (p_limit p)))
       (filter (\<lambda>loc. \<not> skipped p loc) (map snd (locations st)))"
  by (simp add: get_locations_def scan_eq Let_def)

lemma get_locations_count: "fst (get_locations p st) = length (snd (get_locations p st))"
  by (simp add: get_locations_def Let_def)

lemma get_locations_bound:
  "1 \<le> p_limit p \<Longrightarrow> int (length (snd (get_locations p st))) \<le> p_limit p"
  by (simp add: get_locations_items)

subsection \<open>reserve\<close>

text \<open>
  Claim C1. \<open>reserve\<close> is all-or-nothing: for every state and every request, if some
  listed id is missing from the catalogue or names a location whose status is not FREE,
  the call fails with 404 (NotFound) or 409 (Conflict) and returns the state it was
  given: no status has changed and nothing has been stored in the reservations, under
  the request's id or any other.
\<close>

theorem reserve_all_or_nothing:
  assumes "\<exists>lid\<in>set (location_ids res).
             map_of (locations st) lid = None \<or>
             (\<exists>loc. map_of (locations st) lid = Some loc \<and> status loc \<noteq> ''FREE'')"
  shows "\<exists>e. reserve res st = (Inl e, st) \<and> (status_code e = 404 \<or> status_code e = 409)"
proof -
  from assms have "reserve_check (locations st) (location_ids res) \<noteq> None"
    unfolding reserve_check_None_iff by force
  then obtain e where e: "reserve_check (locations st) (location_ids res) = Some e"
    by blast
  then have "reserve res st = (Inl e, st)"
    by (simp add: reserve_def)
  with reserve_check_code [OF e] show ?thesis by blast
qed

theorem reserve_all_or_nothing_witness:
  "reserve (hold ''RES-1'' [''L3'', ''L4'']) demo =
     (Inl (HTTPException 409 ''Location L4 not FREE''), demo) \<and>
   reserve (hold ''RES-1'' [''L1'', ''L9'']) demo =
     (Inl (HTTPException 404 ''Location L9 not found''), demo)"
  using reserve_all_or_nothing [of "hold ''RES-1'' [''L3'', ''L4'']" demo]
    reserve_all_or_nothing [of "hold ''RES-1'' [''L1'', ''L9'']" demo]
  by (simp add: reserve_def hold_def demo_def flex_slot_def)

text \<open>
  Claim C2. For every state and every request whose listed ids all exist and are FREE,
  \<open>reserve\<close> succeeds and answers with the reservation; afterwards every listed location
  has status RESERVED, the reservations hold the request under its id, replacing whatever
  was there, with \<open>location_ids\<close> the list as given, in order. Locations that are not
  listed and reservations under other ids are as before.
\<close>

theorem reserve_success:
  assumes "\<forall>lid\<in>set (location_ids res).
             \<exists>loc. map_of (locations st) lid = Some loc \<and> status loc = ''FREE''"
  shows "fst (reserve res st) = Inr res \<and>
         (\<forall>lid\<in>set (location_ids res).
            status_of (snd (reserve res st)) lid = Some ''RESERVED'') \<and>
         reservations (snd (reserve res st)) (res_id res) = Some res \<and>
         map_option location_ids (reservations (snd (reserve res st)) (res_id res)) =
           Some (location_ids res) \<and>
         (\<forall>k. k \<notin> set (location_ids res) \<longrightarrow>
            map_of (locations (snd (reserve res st))) k = map_of (locations st) k) \<and>
         (\<forall>r. r \<noteq> res_id res \<longrightarrow>
            reservations (snd (reserve res st)) r = reservations st r)"
proof -
  from assms have "reserve_check (locations st) (location_ids res) = None"
    by (simp add: reserve_check_None_iff)
  then have r: "reserve res st =
      (Inr res, st\<lparr>locations := reserve_apply (location_ids res) (locations st),
                   reservations := (reservations st)(res_id res \<mapsto> res)\<rparr>)"
    by (simp add: reserve_def)
  have "status_of (snd (reserve res st)) lid = Some ''RESERVED''"
    if "lid \<in> set (location_ids res)" for lid
  proof -
    from assms that obtain loc where "map_of (locations st) lid = Some loc" by blast
    with that show ?thesis by (simp add: r status_of_def map_of_reserve_apply)
  qed
  then show ?thesis by (simp add: r map_of_reserve_apply)
qed

theorem reserve_success_witness:
  "fst (reserve (hold ''RES-1'' [''L3'', ''L1'']) demo) = Inr (hold ''RES-1'' [''L3'', ''L1'']) \<and>
   status_of (snd (reserve (hold ''RES-1'' [''L3'', ''L1'']) demo)) ''L1'' = Some ''RESERVED'' \<and>
   status_of (snd (reserve (hold ''RES-1'' [''L3'', ''L1'']) demo)) ''L3'' = Some ''RESERVED'' \<and>
   map_option location_ids
     (reservations (snd (reserve (hold ''RES-1'' [''L3'', ''L1'']) demo)) ''RES-1'') =
     Some [''L3'', ''L1'']"
  using reserve_success [of "hold ''RES-1'' [''L3'', ''L1'']" demo]
  by (simp add: hold_def demo_def flex_slot_def)

text \<open>
  Claim C3 as stated has all ids tested for existence before any status is looked at, so
  that a request listing an id that is not FREE and, after it, an id that is missing
  would get NotFound for the missing one. The handler has one loop with both tests in its
  body: on the catalogue above, where L2 is OCCUPIED and L9 does not exist, the request
  for L2 and L9 gets 409 for L2.
\<close>

theorem reserve_order_counterexample:
  "reserve (hold ''RES-1'' [''L2'', ''L9'']) demo =
     (Inl (HTTPException 409 ''Location L2 not FREE''), demo) \<and>
   map_of (locations demo) ''L9'' = None \<and>
   fst (reserve (hold ''RES-1'' [''L2'', ''L9'']) demo) \<noteq>
     Inl (HTTPException 404 ''Location L9 not found'')"
  by (simp add: reserve_def hold_def demo_def flex_slot_def)

text \<open>
  Claim C3, amended. \<open>reserve\<close> goes through the listed ids once, in list order, and
  fails at the first id that is missing or not FREE; for that id existence is tested
  before status. When all ids before \<open>lid\<close> exist and are FREE, a missing \<open>lid\<close> gives
  404 naming \<open>lid\<close> and an existing \<open>lid\<close> that is not FREE gives 409 naming \<open>lid\<close>,
  whatever follows it in the list; the state is unchanged.
\<close>

theorem reserve_first_violation:
  assumes "location_ids res = pre @ lid # post"
    and "\<forall>x\<in>set pre. \<exists>loc. map_of (locations st) x = Some loc \<and> status loc = ''FREE''"
  shows "(map_of (locations st) lid = None \<longrightarrow>
            reserve res st =
              (Inl (HTTPException 404 (''Location '' @ lid @ '' not found'')), st)) \<and>
         (\<forall>loc. map_of (locations st) lid = Some loc \<and> status loc \<noteq> ''FREE'' \<longrightarrow>
            reserve res st =
              (Inl (HTTPException 409 (''Location '' @ lid @ '' not FREE'')), st))"
  using assms by (auto simp: reserve_def reserve_check_append)

theorem reserve_first_violation_witness:
  "reserve (hold ''RES-1'' [''L1'', ''L2'', ''L9'']) demo =
     (Inl (HTTPException 409 ''Location L2 not FREE''), demo) \<and>
   reserve (hold ''RES-1'' [''L1'', ''L9'', ''L2'']) demo =
     (Inl (HTTPException 404 ''Location L9 not found''), demo)"
  using reserve_first_violation
      [of "hold ''RES-1'' [''L1'', ''L2'', ''L9'']" "[''L1'']" "''L2''" "[''L9'']" demo]
    reserve_first_violation
      [of "hold ''RES-1'' [''L1'', ''L9'', ''L2'']" "[''L1'']" "''L9''" "[''L2'']" demo]
  by (simp add: hold_def demo_def flex_slot_def)

subsection \<open>occupy\<close>

text \<open>
  Claim C5. For every state and location id, \<open>occupy\<close> succeeds exactly when the id is in
  the catalogue with status FREE or RESERVED. A missing id gives 404 (NotFound), any
  other status (OCCUPIED, BLOCKED, MAINT among them) gives 409 (Conflict), and in both
  failures the whole state is left as it was. On success the status of the location is
  OCCUPIED, every other location and the reservations are untouched.
\<close>

theorem occupy_spec:
  "((\<exists>loc. fst (occupy lid pr st) = Inr loc) \<longleftrightarrow>
      status_of st lid = Some ''FREE'' \<or> status_of st lid = Some ''RESERVED'') \<and>
   (status_of st lid = None \<longrightarrow>
      occupy lid pr st = (Inl (HTTPException 404 ''Location not found''), st)) \<and>
   (\<forall>s. status_of st lid = Some s \<and> s \<noteq> ''FREE'' \<and> s \<noteq> ''RESERVED'' \<longrightarrow>
      occupy lid pr st = (Inl (HTTPException 409 ''Location not FREE/RESERVED''), st)) \<and>
   ((\<exists>loc. fst (occupy lid pr st) = Inr loc) \<longrightarrow>
      status_of (snd (occupy lid pr st)) lid = Some ''OCCUPIED'' \<and>
      (\<forall>k. k \<noteq> lid \<longrightarrow>
         map_of (locations (snd (occupy lid pr st))) k = map_of (locations st) k) \<and>
      reservations (snd (occupy lid pr st)) = reservations st)"
  by (cases "map_of (locations st) lid")
     (auto simp: occupy_def status_of_def map_of_set_status)

theorem occupy_spec_witness:
  "fst (occupy ''L1'' None demo) = Inr (flex_slot ''L1'' ''OCCUPIED'' []) \<and>
   status_of (snd (occupy ''L1'' None demo)) ''L1'' = Some ''OCCUPIED'' \<and>
   occupy ''L2'' None demo = (Inl (HTTPException 409 ''Location not FREE/RESERVED''), demo) \<and>
   occupy ''L4'' None demo = (Inl (HTTPException 409 ''Location not FREE/RESERVED''), demo) \<and>
   occupy ''L9'' None demo = (Inl (HTTPException 404 ''Location not found''), demo)"
  using occupy_spec [of "''L1''" None demo] occupy_spec [of "''L2''" None demo]
    occupy_spec [of "''L4''" None demo] occupy_spec [of "''L9''" None demo]
  by (simp add: occupy_def demo_def flex_slot_def status_of_def set_status_def)

subsection \<open>free\<close>

text \<open>
  Claim C6. For every state and every id in the catalogue, \<open>free\<close> (the release
  operation) succeeds whatever the current status is, BLOCKED and MAINT included, and
  the status becomes FREE; nothing else changes. For an id that is not in the catalogue
  it raises 404 (NotFound) and changes nothing. It is idempotent: a second call on the
  state left by the first gives the same answer and the same state.
\<close>

theorem free_spec:
  "(\<forall>loc. map_of (locations st) lid = Some loc \<longrightarrow>
      fst (free lid st) = Inr (loc\<lparr>status := ''FREE''\<rparr>) \<and>
      status_of (snd (free lid st)) lid = Some ''FREE'' \<and>
      (\<forall>k. k \<noteq> lid \<longrightarrow>
         map_of (locations (snd (free lid st))) k = map_of (locations st) k) \<and>
      reservations (snd (free lid st)) = reservations st) \<and>
   (map_of (locations st) lid = None \<longrightarrow>
      free lid st = (Inl (HTTPException 404 ''Location not found''), st)) \<and>
   free lid (snd (free lid st)) = free lid st \<and>
   snd (free lid (snd (free lid st))) = snd (free lid st)"
  by (cases "map_of (locations st) lid")
     (auto simp: free_def status_of_def map_of_set_status set_status_twice)

theorem free_spec_witness:
  "fst (free ''L4'' demo) = Inr (flex_slot ''L4'' ''FREE'' ''G1'') \<and>
   status_of (snd (free ''L4'' demo)) ''L4'' = Some ''FREE'' \<and>
   free ''L4'' (snd (free ''L4'' demo)) = free ''L4'' demo \<and>
   free ''L9'' demo = (Inl (HTTPException 404 ''Location not found''), demo)"
  using free_spec [of demo "''L4''"] free_spec [of demo "''L9''"]
  by (simp add: demo_def flex_slot_def)

subsection \<open>move\<close>

text \<open>
  The two locations in the answer of a successful \<open>move\<close> are the rows found in the
  catalogue after both assignments, as the handler reads them.
\<close>

lemma move_payload:
  "fst (move a b pr st) = Inr (x, y) \<Longrightarrow>
   map_of (locations (snd (move a b pr st))) a = Some x \<and>
   map_of (locations (snd (move a b pr st))) b = Some y"
  by (cases "map_of (locations st) a"; cases "map_of (locations st) b")
     (auto simp: move_def map_of_set_status split: if_splits)

text \<open>
  Claim C4. For every state and ids \<open>a\<close>, \<open>b\<close>: \<open>move a b\<close> succeeds exactly when \<open>a\<close>
  is in the catalogue with status OCCUPIED and \<open>b\<close> is in the catalogue with status FREE
  or RESERVED. If either id is missing the answer is 404 (NotFound); if both exist and
  \<open>a\<close> is not OCCUPIED, or \<open>a\<close> is OCCUPIED and \<open>b\<close> is neither FREE nor RESERVED, it is
  409 (Conflict). On success \<open>a\<close> is FREE and \<open>b\<close> is OCCUPIED afterwards and nothing
  else has changed; on any failure the state is the one given.
\<close>

theorem move_spec:
  "((\<exists>r. fst (move a b pr st) = Inr r) \<longleftrightarrow>
      status_of st a = Some ''OCCUPIED'' \<and>
      (status_of st b = Some ''FREE'' \<or> status_of st b = Some ''RESERVED'')) \<and>
   (status_of st a = None \<or> status_of st b = None \<longrightarrow>
      move a b pr st = (Inl (HTTPException 404 ''Location not found''), st)) \<and>
   (\<forall>s. status_of st a = Some s \<and> s \<noteq> ''OCCUPIED'' \<and> status_of st b \<noteq> None \<longrightarrow>
      move a b pr st = (Inl (HTTPException 409 ''From location not OCCUPIED''), st)) \<and>
   (\<forall>s. status_of st a = Some ''OCCUPIED'' \<and> status_of st b = Some s \<and>
        s \<noteq> ''FREE'' \<and> s \<noteq> ''RESERVED'' \<longrightarrow>
      move a b pr st = (Inl (HTTPException 409 ''To location not FREE/RESERVED''), st)) \<and>
   ((\<exists>r. fst (move a b pr st) = Inr r) \<longrightarrow>
      status_of (snd (move a b pr st)) a = Some ''FREE'' \<and>
      status_of (snd (move a b pr st)) b = Some ''OCCUPIED'' \<and>
      (\<forall>k. k \<noteq> a \<and> k \<noteq> b \<longrightarrow>
         map_of (locations (snd (move a b pr st))) k = map_of (locations st) k) \<and>
      reservations (snd (move a b pr st)) = reservations st) \<and>
   ((\<exists>e. fst (move a b pr st) = Inl e) \<longrightarrow> snd (move a b pr st) = st)"
  by (cases "map_of (locations st) a"; cases "map_of (locations st) b")
     (auto simp: move_def status_of_def map_of_set_status)

theorem move_spec_witness:
  "fst (move ''L2'' ''L1'' None demo) =
     Inr (flex_slot ''L2'' ''FREE'' [], flex_slot ''L1'' ''OCCUPIED'' []) \<and>
   status_of (snd (move ''L2'' ''L1'' None demo)) ''L2'' = Some ''FREE'' \<and>
   status_of (snd (move ''L2'' ''L1'' None demo)) ''L1'' = Some ''OCCUPIED'' \<and>
   move ''L2'' ''L1'' None (snd (move ''L2'' ''L1'' None demo)) =
     (Inl (HTTPException 409 ''From location not OCCUPIED''),
      snd (move ''L2'' ''L1'' None demo)) \<and>
   move ''L2'' ''L4'' None demo =
     (Inl (HTTPException 409 ''To location not FREE/RESERVED''), demo) \<and>
   move ''L2'' ''L9'' None demo = (Inl (HTTPException 404 ''Location not found''), demo)"
  using move_spec [of "''L2''" "''L1''" None demo]
    move_spec [of "''L2''" "''L1''" None "snd (move ''L2'' ''L1'' None demo)"]
    move_spec [of "''L2''" "''L4''" None demo]
    move_spec [of "''L2''" "''L9''" None demo]
  by (simp add: move_def demo_def flex_slot_def status_of_def set_status_def)

text \<open>
  Claim C10. For every state and every id \<open>a\<close> in the catalogue, \<open>move a a\<close> fails with
  409 (Conflict): the one status cannot be OCCUPIED and also FREE or RESERVED. The state,
  the status of \<open>a\<close> included, is left as it was.
\<close>

theorem move_same_location_fails:
  "map_of (locations st) a = Some loc \<Longrightarrow>
   (\<exists>d. move a a pr st = (Inl (HTTPException 409 d), st))"
  by (auto simp: move_def)

theorem move_same_location_fails_witness:
  "move ''L2'' ''L2'' None demo =
     (Inl (HTTPException 409 ''To location not FREE/RESERVED''), demo) \<and>
   move ''L1'' ''L1'' None demo =
     (Inl (HTTPException 409 ''From location not OCCUPIED''), demo)"
  using move_same_location_fails [of demo "''L2''" _ None]
    move_same_location_fails [of demo "''L1''" _ None]
  by (simp add: move_def demo_def flex_slot_def)

subsection \<open>get_locations\<close>

text \<open>
  Claim C7. The claim is that for every value of \<^verbatim>\<open>limit\<close> the answer holds at most
  \<^verbatim>\<open>limit\<close> items. The count is always the number of items returned
  (\<open>get_locations_count\<close>) and for a limit of at least 1 the bound holds
  (\<open>get_locations_bound\<close>), but the handler compares with \<^verbatim>\<open>limit\<close> only after it has
  appended: with no filter and \<^verbatim>\<open>limit = 0\<close> on the catalogue above it answers with
  count 1 and the first location.
\<close>

theorem get_locations_limit_zero:
  "get_locations (no_filters\<lparr>p_limit := 0\<rparr>) demo = (1, [flex_slot ''L1'' ''FREE'' []]) \<and>
   \<not> int (length (snd (get_locations (no_filters\<lparr>p_limit := 0\<rparr>) demo))) \<le> 0"
  by (simp add: get_locations_def no_filters_def demo_def skipped_def str_rejects_def
      min_rejects_def)

text \<open>
  Claim C8 as stated counts the empty string and the threshold 0 as filter values that
  the returned locations meet. The handler tests each argument for truth before it
  compares, so an empty \<^verbatim>\<open>group_id\<close> filters nothing: on the catalogue above the query
  with \<^verbatim>\<open>group_id = ""\<close> returns all four locations, two of them of group G1.
\<close>

theorem get_locations_empty_group_counterexample:
  "map group_id (snd (get_locations (no_filters\<lparr>p_group_id := Some []\<rparr>) demo)) =
     [[], [], ''G1'', ''G1''] \<and>
   group_id (snd (get_locations (no_filters\<lparr>p_group_id := Some []\<rparr>) demo) ! 2) \<noteq> []"
  by (simp add: get_locations_def no_filters_def demo_def skipped_def str_rejects_def
      min_rejects_def flex_slot_def)

text \<open>
  The numeric half of the claim fails in the same way only on a row whose bound is
  negative, which the loader accepts (\<^verbatim>\<open>int("-5")\<close>) although the data model asks for
  non-negative bounds: the threshold 0 lets such a row through.
\<close>

lemma zero_threshold_negative_bound:
  "snd (get_locations (no_filters\<lparr>p_min_l := Some 0\<rparr>)
         \<lparr>locations = [(''L5'', (flex_slot ''L5'' ''FREE'' [])\<lparr>length_mm := - 5\<rparr>)],
          reservations = Map.empty\<rparr>) =
     [(flex_slot ''L5'' ''FREE'' [])\<lparr>length_mm := - 5\<rparr>]"
  by (simp add: get_locations_def no_filters_def skipped_def str_rejects_def
      min_rejects_def flex_slot_def)

lemma str_rejectsD:
  "\<not> str_rejects x v \<Longrightarrow> x = Some s \<Longrightarrow> s \<noteq> [] \<Longrightarrow> v = s"
  by (simp add: str_rejects_def)

lemma min_rejectsD:
  "\<not> min_rejects m v \<Longrightarrow> m = Some n \<Longrightarrow> n \<noteq> 0 \<or> 0 \<le> v \<Longrightarrow> n \<le> v"
  by (auto simp: min_rejects_def)

lemma str_rejects_empty: "str_rejects (Some []) v = str_rejects None v"
  by (simp add: str_rejects_def)

lemma min_rejects_zero: "min_rejects (Some 0) v = min_rejects None v"
  by (simp add: min_rejects_def)

text \<open>
  Two argument records with the same limit whose filters skip the same locations get the
  same answer.
\<close>

lemma get_locations_cong:
  "p_limit p = p_limit q \<Longrightarrow> (\<And>loc. skipped p loc = skipped q loc) \<Longrightarrow>
   get_locations p st = get_locations q st"
  by (simp add: get_locations_def scan_eq)

lemma get_locations_no_filter:
  "(p_status p = Some [] \<longrightarrow>
      get_locations p st = get_locations (p\<lparr>p_status := None\<rparr>) st) \<and>
   (p_area_type p = Some [] \<longrightarrow>
      get_locations p st = get_locations (p\<lparr>p_area_type := None\<rparr>) st) \<and>
   (p_area_id p = Some [] \<longrightarrow>
      get_locations p st = get_locations (p\<lparr>p_area_id := None\<rparr>) st) \<and>
   (p_group_id p = Some [] \<longrightarrow>
      get_locations p st = get_locations (p\<lparr>p_group_id := None\<rparr>) st) \<and>
   (p_min_l p = Some 0 \<longrightarrow>
      get_locations p st = get_locations (p\<lparr>p_min_l := None\<rparr>) st) \<and>
   (p_min_w p = Some 0 \<longrightarrow>
      get_locations p st = get_locations (p\<lparr>p_min_w := None\<rparr>) st) \<and>
   (p_min_h p = Some 0 \<longrightarrow>
      get_locations p st = get_locations (p\<lparr>p_min_h := None\<rparr>) st) \<and>
   (p_min_weight p = Some 0 \<longrightarrow>
      get_locations p st = get_locations (p\<lparr>p_min_weight := None\<rparr>) st)"
  by (intro conjI impI; rule get_locations_cong;
      simp add: skipped_def str_rejects_empty min_rejects_zero)

text \<open>
  Claim C8, amended. For every state and every combination of arguments:
  \<^item> the items returned are a subsequence of the catalogue's values in insertion order;
  \<^item> each of them has status, area_type, area_id and group_id equal to the
    corresponding filter when that is a non-empty string;
  \<^item> each of them has length_mm, width_mm, height_mm and max_weight_kg at least the
    corresponding threshold when that is a non-zero integer, and also when it is 0 and
    the bound is non-negative, as the data model has it;
  \<^item> an empty string or a 0 given as a filter is treated as no filter: the answer, count
    and items, is the answer of the same query with that argument left out.
\<close>

theorem get_locations_filters:
  "subseq (snd (get_locations p st)) (map snd (locations st)) \<and>
   (\<forall>loc\<in>set (snd (get_locations p st)).
      (\<forall>s. p_status p = Some s \<and> s \<noteq> [] \<longrightarrow> status loc = s) \<and>
      (\<forall>s. p_area_type p = Some s \<and> s \<noteq> [] \<longrightarrow> area_type loc = s) \<and>
      (\<forall>s. p_area_id p = Some s \<and> s \<noteq> [] \<longrightarrow> area_id loc = s) \<and>
      (\<forall>s. p_group_id p = Some s \<and> s \<noteq> [] \<longrightarrow> group_id loc = s) \<and>
      (\<forall>n. p_min_l p = Some n \<and> (n \<noteq> 0 \<or> 0 \<le> length_mm loc) \<longrightarrow>
         length_mm loc \<ge> n) \<and>
      (\<forall>n. p_min_w p = Some n \<and> (n \<noteq> 0 \<or> 0 \<le> width_mm loc) \<longrightarrow>
         width_mm loc \<ge> n) \<and>
      (\<forall>n. p_min_h p = Some n \<and> (n \<noteq> 0 \<or> 0 \<le> height_mm loc) \<longrightarrow>
         height_mm loc \<ge> n) \<and>
      (\<forall>n. p_min_weight p = Some n \<and> (n \<noteq> 0 \<or> 0 \<le> max_weight_kg loc) \<longrightarrow>
         max_weight_kg loc \<ge> n)) \<and>
   (p_status p = Some [] \<longrightarrow>
      get_locations p st = get_locations (p\<lparr>p_status := None\<rparr>) st) \<and>
   (p_area_type p = Some [] \<longrightarrow>
      get_locations p st = get_locations (p\<lparr>p_area_type := None\<rparr>) st) \<and>
   (p_area_id p = Some [] \<longrightarrow>
      get_locations p st = get_locations (p\<lparr>p_area_id := None\<rparr>) st) \<and>
   (p_group_id p = Some [] \<longrightarrow>
      get_locations p st = get_locations (p\<lparr>p_group_id := None\<rparr>) st) \<and>
   (p_min_l p = Some 0 \<longrightarrow>
      get_locations p st = get_locations (p\<lparr>p_min_l := None\<rparr>) st) \<and>
   (p_min_w p = Some 0 \<longrightarrow>
      get_locations p st = get_locations (p\<lparr>p_min_w := None\<rparr>) st) \<and>
   (p_min_h p = Some 0 \<longrightarrow>
      get_locations p st = get_locations (p\<lparr>p_min_h := None\<rparr>) st) \<and>
   (p_min_weight p = Some 0 \<longrightarrow>
      get_locations p st = get_locations (p\<lparr>p_min_weight := None\<rparr>) st)"
proof -
  let ?keep = "filter (\<lambda>loc. \<not> skipped p loc) (map snd (locations st))"
  have "subseq (take (nat (max 1 (p_limit p))) ?keep) ?keep"
    by (metis append_take_drop_id prefix_imp_subseq prefixI)
  moreover have "subseq ?keep (map snd (locations st))"
    by simp
  ultimately have order: "subseq (snd (get_locations p st)) (map snd (locations st))"
    unfolding get_locations_items by (rule subseq_order.trans)
  have "\<not> skipped p loc" if "loc \<in> set (snd (get_locations p st))" for loc
    using that unfolding get_locations_items by (auto dest: in_set_takeD)
  then have "\<forall>loc\<in>set (snd (get_locations p st)).
      \<not> str_rejects (p_status p) (status loc) \<and>
      \<not> str_rejects (p_area_type p) (area_type loc) \<and>
      \<not> str_rejects (p_area_id p) (area_id loc) \<and>
      \<not> str_rejects (p_group_id p) (group_id loc) \<and>
      \<not> min_rejects (p_min_l p) (length_mm loc) \<and>
      \<not> min_rejects (p_min_w p) (width_mm loc) \<and>
      \<not> min_rejects (p_min_h p) (height_mm loc) \<and>
      \<not> min_rejects (p_min_weight p) (max_weight_kg loc)"
    by (simp add: skipped_def)
  then have meets: "\<forall>loc\<in>set (snd (get_locations p st)).
      (\<forall>s. p_status p = Some s \<and> s \<noteq> [] \<longrightarrow> status loc = s) \<and>
      (\<forall>s. p_area_type p = Some s \<and> s \<noteq> [] \<longrightarrow> area_type loc = s) \<and>
      (\<forall>s. p_area_id p = Some s \<and> s \<noteq> [] \<longrightarrow> area_id loc = s) \<and>
      (\<forall>s. p_group_id p = Some s \<and> s \<noteq> [] \<longrightarrow> group_id loc = s) \<and>
      (\<forall>n. p_min_l p = Some n \<and> (n \<noteq> 0 \<or> 0 \<le> length_mm loc) \<longrightarrow>
         length_mm loc \<ge> n) \<and>
      (\<forall>n. p_min_w p = Some n \<and> (n \<noteq> 0 \<or> 0 \<le> width_mm loc) \<longrightarrow>
         width_mm loc \<ge> n) \<and>
      (\<forall>n. p_min_h p = Some n \<and> (n \<noteq> 0 \<or> 0 \<le> height_mm loc) \<longrightarrow>
         height_mm loc \<ge> n) \<and>
      (\<forall>n. p_min_weight p = Some n \<and> (n \<noteq> 0 \<or> 0 \<le> max_weight_kg loc) \<longrightarrow>
         max_weight_kg loc \<ge> n)"
    by (blast dest: str_rejectsD min_rejectsD)
  from order meets get_locations_no_filter [of p st] show ?thesis
    by blast
qed

theorem get_locations_filters_witness:
  "snd (get_locations
         (no_filters\<lparr>p_group_id := Some ''G1'', p_status := Some ''FREE'',
                     p_min_l := Some 1000\<rparr>) demo) =
     [flex_slot ''L3'' ''FREE'' ''G1''] \<and>
   subseq [flex_slot ''L3'' ''FREE'' ''G1''] (map snd (locations demo)) \<and>
   get_locations
     (no_filters\<lparr>p_status := Some [], p_area_type := Some [], p_area_id := Some [],
                 p_group_id := Some [], p_min_l := Some 0, p_min_w := Some 0,
                 p_min_h := Some 0, p_min_weight := Some 0\<rparr>) demo =
     get_locations no_filters demo \<and>
   get_locations no_filters demo = (4, map snd (locations demo))"
  using get_locations_filters
      [of "no_filters\<lparr>p_group_id := Some ''G1'', p_status := Some ''FREE'',
                       p_min_l := Some 1000\<rparr>" demo]
    get_locations_filters
      [of "no_filters\<lparr>p_status := Some [], p_area_type := Some [], p_area_id := Some [],
                 p_group_id := Some [], p_min_l := Some 0, p_min_w := Some 0,
                 p_min_h := Some 0, p_min_weight := Some 0\<rparr>" demo]
  by (simp add: get_locations_def no_filters_def demo_def skipped_def str_rejects_def
      min_rejects_def flex_slot_def)

subsection \<open>Sequences of requests\<close>

lemma step_status:
  "status_of (step x st) lid = status_of st lid \<or>
   status_of st lid \<noteq> None \<and>
   status_of (step x st) lid \<in> {Some ''FREE'', Some ''OCCUPIED'', Some ''RESERVED''}"
proof (cases x)
  case (Query p)
  then show ?thesis by simp
next
  case (Reserve res)
  then show ?thesis
    by (cases "map_of (locations st) lid")
       (auto simp: reserve_def status_of_def map_of_reserve_apply split: option.splits)
next
  case (Occupy k pr)
  then show ?thesis
    by (cases "map_of (locations st) lid")
       (auto simp: occupy_def status_of_def map_of_set_status split: option.splits)
next
  case (Free k)
  then show ?thesis
    by (cases "map_of (locations st) lid")
       (auto simp: free_def status_of_def map_of_set_status split: option.splits)
next
  case (Move a b pr)
  then show ?thesis
    by (cases "map_of (locations st) lid")
       (auto simp: move_def status_of_def map_of_set_status split: option.splits)
qed

lemma run_status:
  "status_of (run xs st) lid = status_of st lid \<or>
   status_of st lid \<noteq> None \<and>
   status_of (run xs st) lid \<in> {Some ''FREE'', Some ''OCCUPIED'', Some ''RESERVED''}"
proof (induction xs arbitrary: st)
  case Nil
  then show ?case by simp
next
  case (Cons x xs)
  from Cons.IH [of "step x st"] step_status [of x st lid]
  show ?case by auto
qed

text \<open>
  No request adds, removes or reorders a key of the catalogue; in particular keys that
  are distinct, as those of a dictionary are, stay distinct.
\<close>

lemma step_keys: "map fst (locations (step x st)) = map fst (locations st)"
  by (cases x)
     (auto simp: reserve_def occupy_def free_def move_def keys_set_status keys_reserve_apply
           split: option.splits)

lemma run_keys: "map fst (locations (run xs st)) = map fst (locations st)"
  by (induction xs arbitrary: st) (simp_all add: step_keys)

text \<open>
  Claim C9. No request (query, reserve, occupy, free, move) moves a location into BLOCKED
  or MAINT. For every state, which covers every reachable one, and every request: the
  catalogue keeps its ids, and a status that the request changes is FREE, OCCUPIED or
  RESERVED afterwards. Hence after any sequence of requests a location that is BLOCKED or
  MAINT had that status in the state the sequence started from, and if every status was
  one of the five values at the start, every status is one of the five at the end.
\<close>

theorem status_never_enters_blocked_or_maint:
  "(status_of (step x st) lid = None \<longleftrightarrow> status_of st lid = None) \<and>
   (\<forall>s s'. status_of st lid = Some s \<and> status_of (step x st) lid = Some s' \<and> s' \<noteq> s \<longrightarrow>
      s' = ''FREE'' \<or> s' = ''OCCUPIED'' \<or> s' = ''RESERVED'') \<and>
   (\<forall>s'. status_of (run xs st) lid = Some s' \<and> (s' = ''BLOCKED'' \<or> s' = ''MAINT'') \<longrightarrow>
      status_of st lid = Some s') \<and>
   ((\<forall>k s. status_of st k = Some s \<longrightarrow> valid_status s) \<longrightarrow>
    (\<forall>k s. status_of (run xs st) k = Some s \<longrightarrow> valid_status s))"
proof (intro conjI)
  show "status_of (step x st) lid = None \<longleftrightarrow> status_of st lid = None"
    using step_status [of x st lid] by auto
  show "\<forall>s s'. status_of st lid = Some s \<and> status_of (step x st) lid = Some s' \<and> s' \<noteq> s \<longrightarrow>
      s' = ''FREE'' \<or> s' = ''OCCUPIED'' \<or> s' = ''RESERVED''"
    using step_status [of x st lid] by auto
  show "\<forall>s'. status_of (run xs st) lid = Some s' \<and> (s' = ''BLOCKED'' \<or> s' = ''MAINT'') \<longrightarrow>
      status_of st lid = Some s'"
    using run_status [of xs st lid] by auto
  show "(\<forall>k s. status_of st k = Some s \<longrightarrow> valid_status s) \<longrightarrow>
    (\<forall>k s. status_of (run xs st) k = Some s \<longrightarrow> valid_status s)"
  proof (intro impI allI)
    fix k s
    assume valid: "\<forall>k s. status_of st k = Some s \<longrightarrow> valid_status s"
      and s: "status_of (run xs st) k = Some s"
    from run_status [of xs st k] s
    consider "status_of st k = Some s" | "s = ''FREE'' \<or> s = ''OCCUPIED'' \<or> s = ''RESERVED''"
      by auto
    then show "valid_status s"
    proof cases
      case 1
      with valid show ?thesis by blast
    next
      case 2
      then show ?thesis by (auto simp: valid_status_def)
    qed
  qed
qed

theorem status_never_enters_blocked_or_maint_witness:
  "status_of demo ''L4'' = Some ''BLOCKED'' \<and>
   status_of (step (Free ''L4'') demo) ''L4'' = Some ''FREE'' \<and>
   status_of (run [Occupy ''L4'' None, Move ''L2'' ''L4'' None, Query no_filters,
                   Reserve (hold ''RES-1'' [''L1'', ''L3''])] demo) ''L4'' =
     Some ''BLOCKED'' \<and>
   map (status_of (run [Occupy ''L4'' None, Move ''L2'' ''L4'' None, Query no_filters,
                        Reserve (hold ''RES-1'' [''L1'', ''L3''])] demo))
       [''L1'', ''L2'', ''L3'', ''L4''] =
     [Some ''RESERVED'', Some ''OCCUPIED'', Some ''RESERVED'', Some ''BLOCKED''] \<and>
   valid_status ''RESERVED'' \<and> valid_status ''OCCUPIED'' \<and> valid_status ''BLOCKED''"
  using status_never_enters_blocked_or_maint [of "Free ''L4''" demo "''L4''"
      "[Occupy ''L4'' None, Move ''L2'' ''L4'' None, Query no_filters,
        Reserve (hold ''RES-1'' [''L1'', ''L3''])]"]
  by (simp add: demo_def flex_slot_def hold_def status_of_def valid_status_def
      occupy_def free_def move_def reserve_def set_status_def)

end
